theory Spec2Isabelle
  imports Main
begin

section \<open>Strings and dates of the host language\<close>

text \<open>
  A string of the program is modelled as a \<^typ>\<open>string\<close>: each \<^typ>\<open>char\<close> is one code unit
  below 256. A Date object is its time value: an integral number of milliseconds since
  the epoch, or NaN (an "Invalid Date"). A variable that may hold \<open>null\<close> is an option.
  A thrown error is an object with a name and a message.
\<close>

datatype jsdate = InvalidDate | DateAt int

fun getTime :: "jsdate \<Rightarrow> int option" where
  "getTime InvalidDate = None"
| "getTime (DateAt t) = Some t"

record js_error =
  error_name :: string      \<comment> \<open>\<open>error.name\<close>: the class of the error\<close>
  error_message :: string   \<comment> \<open>\<open>error.message\<close>\<close>

definition new_Error :: "string \<Rightarrow> js_error" where
  \<comment> \<open>\<open>new Error(message)\<close>\<close>
  "new_Error msg = \<lparr>error_name = ''Error'', error_message = msg\<rparr>"

definition isValid :: "jsdate \<Rightarrow> bool" where
  \<comment> \<open>\<open>!isNaN(d.getTime())\<close>\<close>
  "isValid d = (getTime d \<noteq> None)"

definition is_line_terminator :: "char \<Rightarrow> bool" where
  \<comment> \<open>the characters that \<open>.\<close> does not match: LF and CR\<close>
  "is_line_terminator c = (c = CHR 0x0A \<or> c = CHR 0x0D)"

definition is_white_space :: "char \<Rightarrow> bool" where
  \<comment> \<open>the characters of \<open>\s\<close> and of \<open>trim()\<close>: TAB, LF, VT, FF, CR, space, NBSP\<close>
  "is_white_space c =
     (c = CHR 0x09 \<or> c = CHR 0x0A \<or> c = CHR 0x0B \<or> c = CHR 0x0C \<or> c = CHR 0x0D
      \<or> c = CHR 0x20 \<or> c = CHR 0xA0)"

definition trim :: "string \<Rightarrow> string" where
  "trim s = rev (dropWhile is_white_space (rev (dropWhile is_white_space s)))"

fun starts_with :: "string \<Rightarrow> string \<Rightarrow> bool" where
  "starts_with [] s = True"
| "starts_with (p # ps) [] = False"
| "starts_with (p # ps) (c # cs) = (p = c \<and> starts_with ps cs)"

fun str_includes :: "string \<Rightarrow> string \<Rightarrow> bool" where
  \<comment> \<open>\<open>s.includes(sub)\<close>: \<open>sub\<close> occurs in \<open>s\<close> as a contiguous, case-sensitive substring\<close>
  "str_includes [] sub = (sub = [])"
| "str_includes (c # cs) sub = (starts_with sub (c # cs) \<or> str_includes cs sub)"

section \<open>The expiration-field patterns\<close>

text \<open>
  Every pattern of \<open>expiryPatterns\<close> has the shape \<open>/LABEL:\s*(.+)/i\<close>. The flag \<open>i\<close>
  compares letters without case; a label is ASCII, and a code unit outside ASCII is never
  canonicalised to an ASCII one, so folding the ASCII letters is all that matters here.
\<close>

definition canonicalize :: "char \<Rightarrow> nat" where
  \<comment> \<open>the code unit of the character, with the letters a-z folded to A-Z\<close>
  "canonicalize c =
     (let n = (of_char c :: nat) in if 97 \<le> n \<and> n \<le> 122 then n - 32 else n)"

fun match_label :: "string \<Rightarrow> string \<Rightarrow> string option" where
  \<comment> \<open>the literal prefix of the pattern, matched at the head of the input; the rest of the input\<close>
  "match_label [] s = Some s"
| "match_label (p # ps) [] = None"
| "match_label (p # ps) (c # cs) =
     (if canonicalize p = canonicalize c then match_label ps cs else None)"

definition dot_plus :: "string \<Rightarrow> string option" where
  \<comment> \<open>\<open>(.+)\<close> at the end of the pattern: the longest run of characters that are no line
      terminators, which must not be empty\<close>
  "dot_plus s =
     (let m = takeWhile (\<lambda>c. \<not> is_line_terminator c) s in if m = [] then None else Some m)"

fun ws_star_dot_plus :: "string \<Rightarrow> string option" where
  \<comment> \<open>\<open>\s*(.+)\<close>: the greedy star takes one more white-space character first and gives it
      back when the rest of the pattern fails after it\<close>
  "ws_star_dot_plus [] = dot_plus []"
| "ws_star_dot_plus (c # cs) =
     (if is_white_space c
      then (case ws_star_dot_plus cs of Some m \<Rightarrow> Some m | None \<Rightarrow> dot_plus (c # cs))
      else dot_plus (c # cs))"

definition match_here :: "string \<Rightarrow> string \<Rightarrow> string option" where
  "match_here label s =
     (case match_label label s of None \<Rightarrow> None | Some r \<Rightarrow> ws_star_dot_plus r)"

fun regex_match :: "string \<Rightarrow> string \<Rightarrow> string option" where
  \<comment> \<open>\<open>data.match(/LABEL:\s*(.+)/i)\<close>: the leftmost start position at which the pattern
      matches; the result is capture group 1, \<open>None\<close> is \<open>null\<close>\<close>
  "regex_match label [] = match_here label []"
| "regex_match label (c # cs) =
     (case match_here label (c # cs) of Some m \<Rightarrow> Some m | None \<Rightarrow> regex_match label cs)"

definition expiryPatterns :: "string list" where
  "expiryPatterns =
     [''Expiration Date:'',
      ''Registry Expiry Date:'',
      ''Registrar Registration Expiration Date:'',
      ''Domain Expiration Date:'',
      ''Expires on:'',
      ''Expiry date:'']"

section \<open>ExpirationResolver\<close>

text \<open>
  What \<open>new Date(text)\<close> makes of a text is left to the host's date parser: it is the
  parameter \<open>Date\<close> of the functions below.
\<close>

definition pattern_date :: "(string \<Rightarrow> jsdate) \<Rightarrow> string \<Rightarrow> string \<Rightarrow> jsdate option" where
  \<comment> \<open>\<open>new Date(match[1].trim())\<close> when the pattern matches, \<open>None\<close> when it does not\<close>
  "pattern_date Date data pattern =
     (case regex_match pattern data of None \<Rightarrow> None | Some m \<Rightarrow> Some (Date (trim m)))"

fun scan_patterns :: "(string \<Rightarrow> jsdate) \<Rightarrow> string \<Rightarrow> string list \<Rightarrow> jsdate option \<Rightarrow> jsdate option" where
  \<comment> \<open>the \<open>for\<close> loop of \<open>checkWithWhois\<close>; the last argument is the variable \<open>expiryDate\<close>,
      which keeps the date of a match also when that date is invalid\<close>
  "scan_patterns Date data [] expiryDate = expiryDate"
| "scan_patterns Date data (pattern # rest) expiryDate =
     (case pattern_date Date data pattern of
        None \<Rightarrow> scan_patterns Date data rest expiryDate
      | Some d \<Rightarrow> if isValid d then Some d else scan_patterns Date data rest (Some d))"

datatype whois_reply = WhoisErr js_error | WhoisData string

definition checkWithWhois :: "(string \<Rightarrow> jsdate) \<Rightarrow> whois_reply \<Rightarrow> js_error + jsdate option" where
  \<comment> \<open>\<open>Inl\<close> is the rejected promise, \<open>Inr None\<close> is \<open>resolve(null)\<close>\<close>
  "checkWithWhois Date reply =
     (case reply of
        WhoisErr err \<Rightarrow> Inl err
      | WhoisData data \<Rightarrow>
          if data \<noteq> [] \<and> str_includes data ''Rate limit exceeded'' then Inr None
          else Inr (scan_patterns Date data expiryPatterns None))"

record rdap_event =
  eventAction :: string
  eventDate :: "string option"

datatype rdap_reply =
    RdapErr js_error                     \<comment> \<open>\<open>axios.get\<close> throws: transport error, timeout, HTTP status\<close>
  | RdapData "rdap_event list option"    \<comment> \<open>\<open>response.data.events\<close>, \<open>None\<close> when it is missing\<close>

definition is_expiration_event :: "rdap_event \<Rightarrow> bool" where
  "is_expiration_event event =
     (eventAction event = ''expiration'' \<or> eventAction event = ''registrationExpiration'')"

definition rdap_extract :: "(string \<Rightarrow> jsdate) \<Rightarrow> rdap_reply \<Rightarrow> js_error + jsdate" where
  \<comment> \<open>the \<open>try\<close> block of \<open>checkWithRdap\<close>\<close>
  "rdap_extract Date reply =
     (case reply of
        RdapErr error \<Rightarrow> Inl error
      | RdapData None \<Rightarrow> Inl (new_Error ''RDAP response did not contain expiration information'')
      | RdapData (Some events) \<Rightarrow>
          (case find is_expiration_event events of
             None \<Rightarrow> Inl (new_Error ''RDAP response did not contain expiration information'')
           | Some expirationEvent \<Rightarrow>
               (case eventDate expirationEvent of
                  None \<Rightarrow> Inl (new_Error ''RDAP response did not contain expiration information'')
                | Some text \<Rightarrow>
                    if text \<noteq> [] \<and> isValid (Date text) then Inr (Date text)
                    else Inl (new_Error ''RDAP response did not contain expiration information''))))"

definition checkWithRdap :: "(string \<Rightarrow> jsdate) \<Rightarrow> rdap_reply \<Rightarrow> js_error + jsdate" where
  \<comment> \<open>the \<open>catch\<close> block wraps every failure of the \<open>try\<close> block in a new error\<close>
  "checkWithRdap Date reply =
     (case rdap_extract Date reply of
        Inl error \<Rightarrow>
          Inl (new_Error (''Domain expiration date couldn't be retrieved: '' @ error_message error))
      | Inr d \<Rightarrow> Inr d)"

datatype protocol = Whois | Rdap

record lookup =
  outcome :: "js_error + jsdate" \<comment> \<open>\<open>Inl\<close>: the error thrown to the caller; \<open>Inr\<close>: the date returned\<close>
  queried :: "protocol list"     \<comment> \<open>the protocols that were queried, in order\<close>

definition checkDomainExpiration :: "(string \<Rightarrow> jsdate) \<Rightarrow> whois_reply \<Rightarrow> rdap_reply \<Rightarrow> lookup" where
  "checkDomainExpiration Date whois rdap =
     (case checkWithWhois Date whois of
        Inl err \<Rightarrow> \<lparr>outcome = Inl err, queried = [Whois]\<rparr>
      | Inr (Some expiryDate) \<Rightarrow> \<lparr>outcome = Inr expiryDate, queried = [Whois]\<rparr>
      | Inr None \<Rightarrow> \<lparr>outcome = checkWithRdap Date rdap, queried = [Whois, Rdap]\<rparr>)"

section \<open>Numbers as text\<close>

fun show_nat :: "nat \<Rightarrow> string" where
  \<comment> \<open>the decimal digits of a natural number, as a template literal prints it\<close>
  "show_nat n =
     (if n < 10 then [''0123456789'' ! n] else show_nat (n div 10) @ [''0123456789'' ! (n mod 10)])"

declare show_nat.simps [simp del]

definition show_int :: "int \<Rightarrow> string" where
  "show_int i = (if i < 0 then CHR ''-'' # show_nat (nat (- i)) else show_nat (nat i))"

section \<open>Arithmetic on doubles\<close>

text \<open>
  The numbers of the program are doubles: 53 significant bits, rounded to the nearest
  value, to the even mantissa when two are equally near. A rounded value is written
  \<open>m * 2 ^ k\<close> or \<open>m / 2 ^ s\<close> with an integral mantissa \<open>m\<close> of at most 53 bits. Time values
  and their differences are far inside the range of the normal doubles, so overflow and
  subnormal numbers play no part.
\<close>

definition round_half_even :: "int \<Rightarrow> int \<Rightarrow> int" where
  \<comment> \<open>the integer nearest to \<open>n / d\<close>, the even one of two that are equally near\<close>
  "round_half_even n d =
     (let q = n div d; r = n mod d
      in if 2 * r < d then q else if d < 2 * r then q + 1 else if even q then q else q + 1)"

function shift_down :: "int \<Rightarrow> int \<Rightarrow> nat \<Rightarrow> nat" where
  \<comment> \<open>the least \<open>k\<close> from the given one on with \<open>n / (d * 2 ^ k) < 2 ^ 53\<close>\<close>
  "shift_down n d k = (if d \<le> 0 \<or> n < 2 ^ 53 * d * 2 ^ k then k else shift_down n d (k + 1))"
  by pat_completeness auto
termination
proof (relation "measure (\<lambda>(n, d, k). nat (n + 1 - 2 ^ 53 * d * 2 ^ k))", goal_cases)
  case 1
  show ?case by simp
next
  case (2 n d k)
  define X where "X = 2 ^ 53 * d * (2::int) ^ k"
  have "0 < X" and "X \<le> n"
    using 2 by (simp_all add: X_def)
  moreover have "2 ^ 53 * d * (2::int) ^ (k + 1) = 2 * X"
    by (simp add: X_def)
  ultimately show ?case
    unfolding in_measure prod.case X_def [symmetric] by simp
qed

function shift_up :: "int \<Rightarrow> int \<Rightarrow> nat \<Rightarrow> nat" where
  \<comment> \<open>the least \<open>s\<close> from the given one on with \<open>2 ^ 52 \<le> n * 2 ^ s / d\<close>\<close>
  "shift_up n d s = (if n \<le> 0 \<or> 2 ^ 52 * d \<le> n * 2 ^ s then s else shift_up n d (s + 1))"
  by pat_completeness auto
termination
proof (relation "measure (\<lambda>(n, d, s). nat (2 ^ 52 * d - n * 2 ^ s))", goal_cases)
  case 1
  show ?case by simp
next
  case (2 n d s)
  define Y where "Y = n * (2::int) ^ s"
  have "0 < Y" and "Y < 2 ^ 52 * d"
    using 2 by (simp_all add: Y_def)
  moreover have "n * (2::int) ^ (s + 1) = 2 * Y"
    by (simp add: Y_def)
  ultimately show ?case
    unfolding in_measure prod.case Y_def [symmetric] by simp
qed

declare shift_down.simps [simp del] shift_up.simps [simp del]

definition double_of_int :: "int \<Rightarrow> int" where
  \<comment> \<open>the double nearest to an integer, which is an integer again: the result of
      subtracting two time values\<close>
  "double_of_int x =
     (let k = shift_down \<bar>x\<bar> 1 0
      in sgn x * (round_half_even \<bar>x\<bar> (2 ^ k) * 2 ^ k))"

definition floor_double_div :: "int \<Rightarrow> int \<Rightarrow> int" where
  \<comment> \<open>\<open>Math.floor(y / d)\<close> for an integral double \<open>y\<close> and a positive integral double \<open>d\<close>:
      the quotient is rounded to a double before the floor is taken\<close>
  "floor_double_div y d =
     (let k = shift_down \<bar>y\<bar> d 0
      in if 0 < k then sgn y * (round_half_even \<bar>y\<bar> (d * 2 ^ k) * 2 ^ k)
         else (let s = shift_up \<bar>y\<bar> d 0
               in (sgn y * round_half_even (\<bar>y\<bar> * 2 ^ s) d) div 2 ^ s))"

section \<open>SessionManager\<close>

text \<open>
  The module variables of the program and the promise that \<open>startWhatsApp\<close> returned to
  its caller. A handler runs to completion before the next event is delivered, so the
  session is a state and every handler a function on it. Time is the order of the events:
  a timer is the event of its firing. A reconnect chains the promise of
  the inner call to the outer one (\<open>startWhatsApp().then(resolve).catch(reject)\<close>), and a
  promise keeps its first settlement: for the caller the chain is one promise that the
  first \<open>resolve\<close> or \<open>reject\<close> of any call settles. The events of a run are those of
  the latest call of \<open>startWhatsApp\<close> and of the reconnects chained to it.
\<close>

definition QR_MAX_RETRY :: nat where
  "QR_MAX_RETRY = 3"

definition QR_TIMEOUT_SECONDS :: nat where
  "QR_TIMEOUT_SECONDS = 60"

definition global_timeout_ms :: nat where
  \<comment> \<open>the delay of the timer that \<open>startWhatsApp\<close> sets for the whole connection process\<close>
  "global_timeout_ms = QR_MAX_RETRY * QR_TIMEOUT_SECONDS * 1000 + 10000"

datatype promise = Pending | Resolved | Rejected string

record session =
  sock :: bool              \<comment> \<open>\<open>sock\<close> is not \<open>null\<close>\<close>
  isConnected :: bool
  qrDisplayed :: bool
  qrTimeout :: bool         \<comment> \<open>\<open>qrTimeout\<close> holds a timer handle (is not \<open>null\<close>)\<close>
  qrRetryCount :: nat
  qrTimerArmed :: bool      \<comment> \<open>the timer of that handle has neither fired nor been cleared\<close>
  qrGenerated :: nat        \<comment> \<open>how many challenges \<open>qrcode.generate\<close> has printed so far\<close>
  connectPromise :: promise \<comment> \<open>the promise returned to the caller of \<open>startWhatsApp\<close>\<close>

definition initial_session :: session where
  "initial_session =
     \<lparr>sock = False, isConnected = False, qrDisplayed = False, qrTimeout = False,
      qrRetryCount = 0, qrTimerArmed = False, qrGenerated = 0, connectPromise = Pending\<rparr>"

definition resolve :: "session \<Rightarrow> session" where
  "resolve s = (if connectPromise s = Pending then s\<lparr>connectPromise := Resolved\<rparr> else s)"

definition reject :: "string \<Rightarrow> session \<Rightarrow> session" where
  "reject msg s = (if connectPromise s = Pending then s\<lparr>connectPromise := Rejected msg\<rparr> else s)"

definition clear_qrTimeout :: "session \<Rightarrow> session" where
  \<comment> \<open>\<open>if (qrTimeout) { clearTimeout(qrTimeout); qrTimeout = null; }\<close>\<close>
  "clear_qrTimeout s = (if qrTimeout s then s\<lparr>qrTimeout := False, qrTimerArmed := False\<rparr> else s)"

definition startWhatsApp_body :: "session \<Rightarrow> session" where
  \<comment> \<open>the statements of \<open>startWhatsApp\<close> before the promise is created\<close>
  "startWhatsApp_body s = (clear_qrTimeout s)\<lparr>qrDisplayed := False, sock := True\<rparr>"

definition startWhatsApp :: "session \<Rightarrow> session" where
  \<comment> \<open>a call by \<open>startBot\<close> or \<open>ensureWhatsAppConnection\<close>: the caller gets a new promise\<close>
  "startWhatsApp s = (startWhatsApp_body s)\<lparr>connectPromise := Pending\<rparr>"

datatype connection = NoConnectionField | Connecting | Close | Open

record update =
  connection :: connection
  statusCode :: "nat option"   \<comment> \<open>\<open>lastDisconnect?.error?.output?.statusCode\<close>\<close>
  qr :: bool                   \<comment> \<open>the update carries a challenge (a non-empty \<open>qr\<close> string)\<close>

datatype event =
    StartWhatsApp         \<comment> \<open>\<open>startBot\<close> or \<open>ensureWhatsAppConnection\<close> calls \<open>startWhatsApp\<close>\<close>
  | ConnectionUpdate update
  | MessagesUpsert
  | QrTimerFires          \<comment> \<open>the timer set when a challenge was displayed, after 60 s\<close>
  | ReconnectTimerFires   \<comment> \<open>the timer set by a transient close, after 5 s\<close>
  | GlobalTimerFires      \<comment> \<open>the timer set by \<open>startWhatsApp\<close>, after \<open>global_timeout_ms\<close>\<close>

definition on_qr :: "update \<Rightarrow> session \<Rightarrow> session" where
  "on_qr u s =
     (if qr u \<and> \<not> qrDisplayed s \<and> qrRetryCount s < QR_MAX_RETRY
      then s\<lparr>qrDisplayed := True, qrRetryCount := qrRetryCount s + 1,
             qrGenerated := qrGenerated s + 1, qrTimeout := True, qrTimerArmed := True\<rparr>
      else s)"

definition on_close :: "nat option \<Rightarrow> session \<Rightarrow> session" where
  \<comment> \<open>a transient close only sets the reconnect timer, which is not part of the state\<close>
  "on_close code s =
     (let s1 = clear_qrTimeout (s\<lparr>isConnected := False\<rparr>)
      in case code of
           None \<Rightarrow> s1
         | Some c \<Rightarrow>
             if c \<noteq> 401 \<and> c \<noteq> 408 then s1
             else reject (''Connection closed with status code: '' @ show_nat c) s1)"

definition on_open :: "session \<Rightarrow> session" where
  "on_open s = resolve ((clear_qrTimeout s)\<lparr>qrRetryCount := 0, isConnected := True\<rparr>)"

definition on_connection_update :: "update \<Rightarrow> session \<Rightarrow> session" where
  "on_connection_update u s =
     (let s1 = on_qr u s
      in case connection u of
           Close \<Rightarrow> on_close (statusCode u) s1
         | Open \<Rightarrow> on_open s1
         | _ \<Rightarrow> s1)"

definition on_messages_upsert :: "session \<Rightarrow> session" where
  "on_messages_upsert s = (if \<not> isConnected s then resolve (s\<lparr>isConnected := True\<rparr>) else s)"

definition on_qr_timer :: "session \<Rightarrow> session" where
  \<comment> \<open>the handle stays in \<open>qrTimeout\<close>; a timer that was cleared does not fire\<close>
  "on_qr_timer s = (if qrTimerArmed s then s\<lparr>qrDisplayed := False, qrTimerArmed := False\<rparr> else s)"

definition on_reconnect_timer :: "session \<Rightarrow> session" where
  "on_reconnect_timer s =
     startWhatsApp_body (if qrRetryCount s \<ge> QR_MAX_RETRY then s\<lparr>qrRetryCount := 0\<rparr> else s)"

definition on_global_timer :: "session \<Rightarrow> session" where
  "on_global_timer s =
     (if \<not> isConnected s
      then (if qrRetryCount s \<ge> QR_MAX_RETRY then reject ''Maximum QR code attempts reached'' s
            else s)
      else s)"

fun step :: "event \<Rightarrow> session \<Rightarrow> session" where
  "step StartWhatsApp s = startWhatsApp s"
| "step (ConnectionUpdate u) s = on_connection_update u s"
| "step MessagesUpsert s = on_messages_upsert s"
| "step QrTimerFires s = on_qr_timer s"
| "step ReconnectTimerFires s = on_reconnect_timer s"
| "step GlobalTimerFires s = on_global_timer s"

fun run :: "event list \<Rightarrow> session \<Rightarrow> session" where
  \<comment> \<open>the events are delivered one at a time, in order\<close>
  "run [] s = s"
| "run (e # es) s = run es (step e s)"

fun ends_cycle :: "event \<Rightarrow> bool" where
  \<comment> \<open>the events whose handlers assign 0 to \<open>qrRetryCount\<close>: a connection cycle ends at
      an open connection or at a reconnect\<close>
  "ends_cycle (ConnectionUpdate u) = (connection u = Open)"
| "ends_cycle ReconnectTimerFires = True"
| "ends_cycle _ = False"

definition challenge :: update where
  \<comment> \<open>an update that carries a challenge and no connection field\<close>
  "challenge = \<lparr>connection = NoConnectionField, statusCode = None, qr = True\<rparr>"

section \<open>Notifier\<close>

text \<open>
  \<open>ensureWhatsAppConnection\<close> reads three things: the flag \<open>isConnected\<close>, whether \<open>sock\<close>
  is set, and whether the socket knows its \<open>user\<close>. What a call of \<open>startWhatsApp\<close> and the
  ten seconds after it do to them is decided by the events that arrive meanwhile: the
  environment gives it, per attempt. An awaited promise that never settles leaves the
  caller suspended for ever.
\<close>

record conn_view =
  v_isConnected :: bool
  v_sock :: bool
  v_user :: bool

definition is_live :: "conn_view \<Rightarrow> bool" where
  \<comment> \<open>\<open>isConnected && sock && sock.user\<close>\<close>
  "is_live v = (v_isConnected v \<and> v_sock v \<and> v_user v)"

datatype connect_outcome =
    ConnectResolves bool bool  \<comment> \<open>the promise resolves with the socket; \<open>isConnected\<close> and
                                   \<open>sock.user\<close> as they are after the wait of 10 s\<close>
  | ConnectRejects string
  | ConnectPending             \<comment> \<open>the promise never settles\<close>

datatype 'a completion = Returns 'a | Throws string | Hangs

function ensure_loop :: "(nat \<Rightarrow> connect_outcome) \<Rightarrow> nat \<Rightarrow> nat \<Rightarrow> conn_view \<Rightarrow> bool completion" where
  "ensure_loop connects maxRetries retries v =
     (if retries < maxRetries
      then if is_live v then Returns True
           else if \<not> v_sock v \<or> \<not> v_isConnected v
           then (case connects retries of
                   ConnectRejects e \<Rightarrow> Throws e
                 | ConnectPending \<Rightarrow> Hangs
                 | ConnectResolves c u \<Rightarrow>
                     ensure_loop connects maxRetries (retries + 1)
                       \<lparr>v_isConnected = c, v_sock = True, v_user = u\<rparr>)
           else ensure_loop connects maxRetries (retries + 1) v
      else Returns (is_live v))"
  by pat_completeness auto
termination
  by (relation "measure (\<lambda>(connects, maxRetries, retries, v). maxRetries - retries)") auto

declare ensure_loop.simps [simp del]

definition ensureWhatsAppConnection :: "(nat \<Rightarrow> connect_outcome) \<Rightarrow> conn_view \<Rightarrow> bool completion" where
  \<comment> \<open>called without an argument: \<open>maxRetries = 3\<close>\<close>
  "ensureWhatsAppConnection connects v = ensure_loop connects 3 0 v"

datatype 'r send_reply = SendResult 'r | SendThrows string | SendPending

record 'r environment =
  connects :: "nat \<Rightarrow> connect_outcome"             \<comment> \<open>the outcome of the n-th connection attempt\<close>
  RECIPIENT_NUMBER :: "string option"                \<comment> \<open>\<open>process.env.RECIPIENT_NUMBER\<close>\<close>
  sendMessage :: "string \<Rightarrow> string \<Rightarrow> 'r send_reply"  \<comment> \<open>\<open>sock.sendMessage(jid, {text})\<close>\<close>

record 'r send_run =
  completion :: "'r option completion"   \<comment> \<open>\<open>Returns None\<close> is \<open>return null\<close>\<close>
  sent :: "(string \<times> string) list"       \<comment> \<open>the calls of \<open>sock.sendMessage\<close>: recipient and text\<close>

definition send_try :: "'r environment \<Rightarrow> string \<Rightarrow> conn_view \<Rightarrow> 'r send_run" where
  \<comment> \<open>the \<open>try\<close> block of \<open>sendWhatsAppMessage\<close>\<close>
  "send_try env message v =
     (case ensureWhatsAppConnection (connects env) v of
        Throws e \<Rightarrow> \<lparr>completion = Throws e, sent = []\<rparr>
      | Hangs \<Rightarrow> \<lparr>completion = Hangs, sent = []\<rparr>
      | Returns connectionOk \<Rightarrow>
          if \<not> connectionOk then \<lparr>completion = Returns None, sent = []\<rparr>
          else (case RECIPIENT_NUMBER env of
                  None \<Rightarrow> \<lparr>completion = Returns None, sent = []\<rparr>
                | Some recipient \<Rightarrow>
                    if recipient = [] then \<lparr>completion = Returns None, sent = []\<rparr>
                    else (let jid = (if str_includes recipient ''@s.whatsapp.net'' then recipient
                                     else recipient @ ''@s.whatsapp.net'')
                          in case sendMessage env jid message of
                               SendThrows e \<Rightarrow> \<lparr>completion = Throws e, sent = [(jid, message)]\<rparr>
                             | SendPending \<Rightarrow> \<lparr>completion = Hangs, sent = [(jid, message)]\<rparr>
                             | SendResult result \<Rightarrow>
                                 \<lparr>completion = Returns (Some result), sent = [(jid, message)]\<rparr>)))"

definition sendWhatsAppMessage :: "'r environment \<Rightarrow> string \<Rightarrow> conn_view \<Rightarrow> 'r send_run" where
  \<comment> \<open>the \<open>catch\<close> block logs the error and returns \<open>null\<close>\<close>
  "sendWhatsAppMessage env message v =
     (let r = send_try env message v
      in case completion r of
           Throws e \<Rightarrow> r\<lparr>completion := Returns None\<rparr>
         | _ \<Rightarrow> r)"

section \<open>Scheduler\<close>

text \<open>
  \<open>now\<close> is the time value of \<open>new Date()\<close>. A number that may be NaN is an option. A
  message is its text after the leading pictograph, which is kept apart.
\<close>

definition daysUntilExpiry :: "jsdate \<Rightarrow> int \<Rightarrow> int option" where
  \<comment> \<open>\<open>Math.floor((expireDate - now) / (1000 * 60 * 60 * 24))\<close>: the difference and the
      quotient are doubles\<close>
  "daysUntilExpiry expireDate now =
     (case getTime expireDate of
        None \<Rightarrow> None
      | Some t \<Rightarrow> Some (floor_double_div (double_of_int (t - now)) (1000 * 60 * 60 * 24)))"

definition before :: "jsdate \<Rightarrow> int \<Rightarrow> bool" where
  \<comment> \<open>\<open>expireDate < now\<close>: false when the date is invalid\<close>
  "before expireDate now = (case getTime expireDate of None \<Rightarrow> False | Some t \<Rightarrow> t < now)"

definition at_most :: "int option \<Rightarrow> int \<Rightarrow> bool" where
  \<comment> \<open>\<open>x <= n\<close>: false when \<open>x\<close> is NaN\<close>
  "at_most x n = (case x of None \<Rightarrow> False | Some i \<Rightarrow> i \<le> n)"

definition show_number :: "int option \<Rightarrow> string" where
  "show_number x = (case x of None \<Rightarrow> ''NaN'' | Some i \<Rightarrow> show_int i)"

datatype pictograph = Siren | WarningSign | InformationSign

type_synonym message = "pictograph option \<times> string"

definition expired_message :: "string \<Rightarrow> message" where
  "expired_message DOMAIN =
     (Some Siren, ''ATTENTION! '' @ DOMAIN @ '' appears to have expired! Check immediately!'')"

definition warning_message :: "string \<Rightarrow> int option \<Rightarrow> message" where
  "warning_message DOMAIN days =
     (Some WarningSign,
      ''Warning: Domain '' @ DOMAIN @ '' will expire in '' @ show_number days @ '' days!'')"

definition info_message :: "string \<Rightarrow> int option \<Rightarrow> message" where
  "info_message DOMAIN days =
     (Some InformationSign,
      ''Domain '' @ DOMAIN @ '' will expire in '' @ show_number days @ '' days.'')"

definition error_toString :: "js_error \<Rightarrow> string" where
  \<comment> \<open>\<open>String(error)\<close>: the name and the message, or the one of them that is not empty\<close>
  "error_toString error =
     (if error_name error = [] then error_message error
      else if error_message error = [] then error_name error
      else error_name error @ '': '' @ error_message error)"

definition initial_check :: "string \<Rightarrow> js_error + jsdate \<Rightarrow> int \<Rightarrow> message list" where
  \<comment> \<open>the inner \<open>try\<close> statement of \<open>startBot\<close>, given what \<open>checkDomainExpiration\<close> did;
      the result lists the messages handed to \<open>sendWhatsAppMessage\<close>\<close>
  "initial_check DOMAIN looked_up now =
     (case looked_up of
        Inr expireDate \<Rightarrow>
          (let days = daysUntilExpiry expireDate now
           in if before expireDate now then [expired_message DOMAIN]
              else if at_most days 30 then [warning_message DOMAIN days]
              else [info_message DOMAIN days])
      | Inl error \<Rightarrow>
          [(None, ''Whois Bot Error: '' @
              (if error_message error \<noteq> [] then error_message error else error_toString error))])"

definition startup_run :: "bool \<Rightarrow> string option \<Rightarrow> js_error + jsdate \<Rightarrow> int \<Rightarrow> message list" where
  \<comment> \<open>the check is reached only with a live session and a configured domain\<close>
  "startup_run live CHECK_DOMAIN looked_up now =
     (if \<not> live then []
      else case CHECK_DOMAIN of
             None \<Rightarrow> []
           | Some DOMAIN \<Rightarrow> if DOMAIN = [] then [] else initial_check DOMAIN looked_up now)"

definition daily_check :: "string \<Rightarrow> js_error + jsdate \<Rightarrow> int \<Rightarrow> message list" where
  \<comment> \<open>the \<open>try\<close> statement of the job scheduled for 9 o'clock\<close>
  "daily_check DOMAIN looked_up now =
     (case looked_up of
        Inr expireDate \<Rightarrow>
          (let days = daysUntilExpiry expireDate now
           in if before expireDate now then [expired_message DOMAIN]
              else if at_most days 30 then [warning_message DOMAIN days]
              else [])
      | Inl error \<Rightarrow> [(None, ''Whois Bot Error: '' @ error_toString error)])"

definition daily_run :: "string option \<Rightarrow> js_error + jsdate \<Rightarrow> int \<Rightarrow> message list" where
  "daily_run CHECK_DOMAIN looked_up now =
     (case CHECK_DOMAIN of
        None \<Rightarrow> []
      | Some DOMAIN \<Rightarrow> if DOMAIN = [] then [] else daily_check DOMAIN looked_up now)"

section \<open>Inputs for concrete runs\<close>

definition sample_Date :: "string \<Rightarrow> jsdate" where
  \<comment> \<open>stands for the host's date parser in the concrete runs: the two ISO texts are parsed
      as the host parses them, every other text counts as unparseable\<close>
  "sample_Date text =
     (if text = ''2030-01-01T00:00:00Z'' then DateAt 1893456000000
      else if text = ''2031-01-01T00:00:00Z'' then DateAt 1924992000000
      else InvalidDate)"

definition registry_then_registrar :: string where
  \<comment> \<open>a response of two lines, as a registry that also reports the registrar's date sends it\<close>
  "registry_then_registrar =
     ''Registry Expiry Date: 2030-01-01T00:00:00Z'' @ [CHR 0x0A] @
     ''Registrar Registration Expiration Date: 2031-01-01T00:00:00Z''"

definition expiration_2030 :: rdap_reply where
  "expiration_2030 =
     RdapData (Some [\<lparr>eventAction = ''registration'', eventDate = Some ''1995-08-14T04:00:00Z''\<rparr>,
                     \<lparr>eventAction = ''expiration'', eventDate = Some ''2030-01-01T00:00:00Z''\<rparr>])"

definition connection_refused :: js_error where
  \<comment> \<open>the error of a refused connection to the WHOIS server\<close>
  "connection_refused = new_Error ''connect ECONNREFUSED''"

definition axios_timeout :: js_error where
  "axios_timeout = \<lparr>error_name = ''AxiosError'', error_message = ''timeout of 10000ms exceeded''\<rparr>"

definition open_update :: update where
  "open_update = \<lparr>connection = Open, statusCode = None, qr = False\<rparr>"

definition three_challenges :: "event list" where
  \<comment> \<open>a call of \<open>startWhatsApp\<close> and three challenges, each left to time out\<close>
  "three_challenges =
     [StartWhatsApp,
      ConnectionUpdate challenge, QrTimerFires,
      ConnectionUpdate challenge, QrTimerFires,
      ConnectionUpdate challenge, QrTimerFires]"

definition two_challenges_then_timeout :: "event list" where
  \<comment> \<open>two challenges are left to time out, no third one arrives, the global timer fires\<close>
  "two_challenges_then_timeout =
     [StartWhatsApp,
      ConnectionUpdate challenge, QrTimerFires,
      ConnectionUpdate challenge, QrTimerFires,
      GlobalTimerFires]"

definition dropped_each_time :: "nat environment" where
  \<comment> \<open>every connection attempt succeeds and the connection is lost again within the wait\<close>
  "dropped_each_time =
     \<lparr>connects = (\<lambda>n. ConnectResolves False True),
      RECIPIENT_NUMBER = Some ''905000000000'',
      sendMessage = (\<lambda>jid text. SendResult 1)\<rparr>"

definition send_fails :: "nat environment" where
  "send_fails =
     \<lparr>connects = (\<lambda>n. ConnectResolves True True),
      RECIPIENT_NUMBER = Some ''905000000000'',
      sendMessage = (\<lambda>jid text. SendThrows ''Connection Closed'')\<rparr>"

definition connect_rejected :: "nat environment" where
  "connect_rejected =
     \<lparr>connects = (\<lambda>n. ConnectRejects ''Connection closed with status code: 401''),
      RECIPIENT_NUMBER = Some ''905000000000'',
      sendMessage = (\<lambda>jid text. SendResult 1)\<rparr>"



definition live_view :: conn_view where
  "live_view = \<lparr>v_isConnected = True, v_sock = True, v_user = True\<rparr>"

definition down_view :: conn_view where
  "down_view = \<lparr>v_isConnected = False, v_sock = False, v_user = False\<rparr>"

section \<open>Properties of the ExpirationResolver\<close>

lemma scan_patterns_first_valid:
  assumes "\<forall>q\<in>set ps. \<forall>d'. pattern_date Date data q = Some d' \<longrightarrow> \<not> isValid d'"
    and "pattern_date Date data p = Some d"
    and "isValid d"
  shows "scan_patterns Date data (ps @ p # rest) acc = Some d"
  using assms
proof (induction ps arbitrary: acc)
  case Nil
  then show ?case by simp
next
  case (Cons q qs)
  show ?case
  proof (cases "pattern_date Date data q")
    case None
    with Cons show ?thesis by simp
  next
    case (Some d')
    with Cons.prems have "\<not> isValid d'" by simp
    with Some Cons show ?thesis by simp
  qed
qed

lemma rate_limit_falls_back:
  "str_includes data ''Rate limit exceeded'' \<Longrightarrow>
     checkDomainExpiration Date (WhoisData data) rdap
       = \<lparr>outcome = checkWithRdap Date rdap, queried = [Whois, Rdap]\<rparr>"
  by (cases data) (simp_all add: checkDomainExpiration_def checkWithWhois_def)

text \<open>
  Claim C1 asks that a protocol error of the primary lookup is recovered by querying the
  fallback. The comment in \<open>checkDomainExpiration\<close> says the same ("If WHOIS failed or rate
  limited, try RDAP as fallback"), and the rate-limited path does so
  (\<open>rate_limit_falls_back\<close>). The error path does not: \<open>checkWithWhois\<close> rejects, the
  \<open>catch\<close> block throws the error on, and the fallback, which would have given the date,
  is never queried.
\<close>

theorem whois_error_skips_fallback:
  "checkDomainExpiration sample_Date (WhoisErr connection_refused) expiration_2030
     = \<lparr>outcome = Inl connection_refused, queried = [Whois]\<rparr>
   \<and> checkWithRdap sample_Date expiration_2030 = Inr (DateAt 1893456000000)"
  by (simp add: checkDomainExpiration_def checkWithWhois_def checkWithRdap_def rdap_extract_def
      expiration_2030_def is_expiration_event_def sample_Date_def isValid_def)

text \<open>
  Claim C2, amended: the label patterns are tried in the order of \<open>expiryPatterns\<close>, which
  starts with the generic "Expiration Date:" and only then has "Registry Expiry Date:",
  "Registrar Registration Expiration Date:", "Domain Expiration Date:", "Expires on:" and
  "Expiry date:". On a response that is not rate limited, the first pattern in this order
  whose match parses to a valid date gives the result, whatever the later patterns
  would match.
\<close>

theorem first_valid_pattern_wins:
  assumes "expiryPatterns = ps @ p # rest"
    and "\<forall>q\<in>set ps. \<forall>d'. pattern_date Date data q = Some d' \<longrightarrow> \<not> isValid d'"
    and "pattern_date Date data p = Some d"
    and "isValid d"
    and "\<not> str_includes data ''Rate limit exceeded''"
  shows "expiryPatterns =
           [''Expiration Date:'', ''Registry Expiry Date:'',
            ''Registrar Registration Expiration Date:'', ''Domain Expiration Date:'',
            ''Expires on:'', ''Expiry date:'']
         \<and> checkWithWhois Date (WhoisData data) = Inr (Some d)"
proof
  show "expiryPatterns =
          [''Expiration Date:'', ''Registry Expiry Date:'',
           ''Registrar Registration Expiration Date:'', ''Domain Expiration Date:'',
           ''Expires on:'', ''Expiry date:'']"
    by (simp add: expiryPatterns_def)
next
  have "scan_patterns Date data (ps @ p # rest) None = Some d"
    using assms(2,3,4) by (rule scan_patterns_first_valid)
  then show "checkWithWhois Date (WhoisData data) = Inr (Some d)"
    using assms(1,5) by (simp add: checkWithWhois_def)
qed

theorem first_valid_pattern_wins_witness:
  "expiryPatterns = [''Expiration Date:''] @ ''Registry Expiry Date:'' #
       [''Registrar Registration Expiration Date:'', ''Domain Expiration Date:'',
        ''Expires on:'', ''Expiry date:'']
   \<and> pattern_date sample_Date ''Registry Expiry Date: 2030-01-01T00:00:00Z'' ''Expiration Date:'' = None
   \<and> pattern_date sample_Date ''Registry Expiry Date: 2030-01-01T00:00:00Z'' ''Registry Expiry Date:''
       = Some (DateAt 1893456000000)
   \<and> checkWithWhois sample_Date (WhoisData ''Registry Expiry Date: 2030-01-01T00:00:00Z'')
       = Inr (Some (DateAt 1893456000000))"
proof -
  have order: "expiryPatterns = [''Expiration Date:''] @ ''Registry Expiry Date:'' #
       [''Registrar Registration Expiration Date:'', ''Domain Expiration Date:'',
        ''Expires on:'', ''Expiry date:'']"
    by (simp add: expiryPatterns_def)
  have generic: "pattern_date sample_Date ''Registry Expiry Date: 2030-01-01T00:00:00Z''
                   ''Expiration Date:'' = None"
    by code_simp
  have registry: "pattern_date sample_Date ''Registry Expiry Date: 2030-01-01T00:00:00Z''
                    ''Registry Expiry Date:'' = Some (DateAt 1893456000000)"
    by code_simp
  have earlier: "\<forall>q\<in>set [''Expiration Date:'']. \<forall>d'.
      pattern_date sample_Date ''Registry Expiry Date: 2030-01-01T00:00:00Z'' q = Some d'
        \<longrightarrow> \<not> isValid d'"
    using generic by simp
  have valid: "isValid (DateAt 1893456000000)"
    by (simp add: isValid_def)
  have unlimited: "\<not> str_includes ''Registry Expiry Date: 2030-01-01T00:00:00Z'' ''Rate limit exceeded''"
    by code_simp
  show ?thesis
    using first_valid_pattern_wins [OF order earlier registry valid unlimited] order generic registry
    by simp
qed

text \<open>
  Claim C2 as stated puts the registry expiry first. On a response that has a registry
  expiry line and, after it, a registrar expiration line, the registry pattern does yield
  a valid date, and the result is the registrar's date: the generic pattern is tried
  first and matches inside the registrar's label.
\<close>

theorem registry_expiry_first_counterexample:
  "pattern_date sample_Date registry_then_registrar ''Registry Expiry Date:''
     = Some (DateAt 1893456000000)
   \<and> checkWithWhois sample_Date (WhoisData registry_then_registrar)
     = Inr (Some (DateAt 1924992000000))"
  by code_simp

text \<open>
  Claim C8, amended: a successful lookup returns the bare date, with no tag that tells
  which protocol it came from. A valid date that \<open>checkWithWhois\<close> extracts is returned as
  it is and the fallback is not queried; when \<open>checkWithWhois\<close> yields \<open>null\<close>, the date of
  the first expiration event of the fallback's response is returned, if it is valid.
\<close>

theorem lookup_returns_bare_date:
  "(checkWithWhois Date whois = Inr (Some (DateAt t)) \<longrightarrow>
      checkDomainExpiration Date whois rdap = \<lparr>outcome = Inr (DateAt t), queried = [Whois]\<rparr>)
   \<and> (checkWithWhois Date whois = Inr None \<and> find is_expiration_event events = Some ev
        \<and> eventDate ev = Some text \<and> text \<noteq> [] \<and> Date text = DateAt t \<longrightarrow>
      checkDomainExpiration Date whois (RdapData (Some events))
        = \<lparr>outcome = Inr (DateAt t), queried = [Whois, Rdap]\<rparr>)"
  by (simp add: checkDomainExpiration_def checkWithRdap_def rdap_extract_def isValid_def)

theorem lookup_returns_bare_date_witness:
  "checkDomainExpiration sample_Date (WhoisData ''Expiry date: 2030-01-01T00:00:00Z'')
      (RdapErr axios_timeout)
     = \<lparr>outcome = Inr (DateAt 1893456000000), queried = [Whois]\<rparr>
   \<and> checkDomainExpiration sample_Date (WhoisData ''Rate limit exceeded'')
      (RdapData (Some [\<lparr>eventAction = ''registration'', eventDate = Some ''1995-08-14T04:00:00Z''\<rparr>,
                       \<lparr>eventAction = ''expiration'', eventDate = Some ''2030-01-01T00:00:00Z''\<rparr>]))
     = \<lparr>outcome = Inr (DateAt 1893456000000), queried = [Whois, Rdap]\<rparr>"
proof -
  have primary: "checkWithWhois sample_Date (WhoisData ''Expiry date: 2030-01-01T00:00:00Z'')
                   = Inr (Some (DateAt 1893456000000))"
    by code_simp
  have limited: "checkWithWhois sample_Date (WhoisData ''Rate limit exceeded'') = Inr None"
    by code_simp
  have found: "find is_expiration_event
      [\<lparr>eventAction = ''registration'', eventDate = Some ''1995-08-14T04:00:00Z''\<rparr>,
       \<lparr>eventAction = ''expiration'', eventDate = Some ''2030-01-01T00:00:00Z''\<rparr>]
      = Some \<lparr>eventAction = ''expiration'', eventDate = Some ''2030-01-01T00:00:00Z''\<rparr>"
    by (simp add: is_expiration_event_def)
  have parsed: "sample_Date ''2030-01-01T00:00:00Z'' = DateAt 1893456000000"
    by (simp add: sample_Date_def)
  show ?thesis
    using lookup_returns_bare_date
      [of sample_Date "WhoisData ''Expiry date: 2030-01-01T00:00:00Z''" 1893456000000
          "RdapErr axios_timeout"]
      lookup_returns_bare_date
      [of sample_Date "WhoisData ''Rate limit exceeded''" 1893456000000 _
          "[\<lparr>eventAction = ''registration'', eventDate = Some ''1995-08-14T04:00:00Z''\<rparr>,
            \<lparr>eventAction = ''expiration'', eventDate = Some ''2030-01-01T00:00:00Z''\<rparr>]"
          "\<lparr>eventAction = ''expiration'', eventDate = Some ''2030-01-01T00:00:00Z''\<rparr>"
          "''2030-01-01T00:00:00Z''"]
      primary limited found parsed
    by simp
qed

text \<open>
  Claim C8 as stated has the result carry its source. A date found by the primary
  protocol and the same date found by the fallback are one and the same result: nothing
  in it tells them apart.
\<close>

theorem source_tag_counterexample:
  "outcome (checkDomainExpiration sample_Date (WhoisData ''Expiry date: 2030-01-01T00:00:00Z'')
      (RdapErr axios_timeout))
     = outcome (checkDomainExpiration sample_Date (WhoisData ''Rate limit exceeded'') expiration_2030)
   \<and> queried (checkDomainExpiration sample_Date (WhoisData ''Expiry date: 2030-01-01T00:00:00Z'')
      (RdapErr axios_timeout)) = [Whois]
   \<and> queried (checkDomainExpiration sample_Date (WhoisData ''Rate limit exceeded'') expiration_2030)
     = [Whois, Rdap]"
  by code_simp

section \<open>Properties of the SessionManager\<close>

lemmas handler_defs =
  on_connection_update_def on_qr_def on_close_def on_open_def on_messages_upsert_def
  on_qr_timer_def on_reconnect_timer_def on_global_timer_def
  startWhatsApp_def startWhatsApp_body_def clear_qrTimeout_def resolve_def reject_def

lemma run_append: "run (es @ fs) s = run fs (run es s)"
  by (induction es arbitrary: s) simp_all

lemma step_counter_le:
  "qrRetryCount s \<le> QR_MAX_RETRY \<Longrightarrow> qrRetryCount (step e s) \<le> QR_MAX_RETRY"
  by (cases e) (auto simp: handler_defs Let_def split: connection.splits option.splits)

lemma run_counter_le:
  "qrRetryCount s \<le> QR_MAX_RETRY \<Longrightarrow> qrRetryCount (run es s) \<le> QR_MAX_RETRY"
  by (induction es arbitrary: s) (simp_all add: step_counter_le)

lemma step_generated:
  "\<not> ends_cycle e \<Longrightarrow>
     qrGenerated (step e s) + qrRetryCount s = qrGenerated s + qrRetryCount (step e s)"
  by (cases e) (auto simp: handler_defs Let_def split: connection.splits option.splits)

lemma run_generated:
  "\<forall>e\<in>set es. \<not> ends_cycle e \<Longrightarrow>
     qrGenerated (run es s) + qrRetryCount s = qrGenerated s + qrRetryCount (run es s)"
proof (induction es arbitrary: s)
  case Nil
  then show ?case by simp
next
  case (Cons e es)
  have "qrGenerated (run es (step e s)) + qrRetryCount (step e s)
          = qrGenerated (step e s) + qrRetryCount (run es (step e s))"
    using Cons by simp
  moreover have "qrGenerated (step e s) + qrRetryCount s = qrGenerated s + qrRetryCount (step e s)"
    using Cons.prems by (simp add: step_generated)
  ultimately show ?case by simp
qed

lemma three_challenges_state:
  "run three_challenges initial_session =
     \<lparr>sock = True, isConnected = False, qrDisplayed = False, qrTimeout = True,
      qrRetryCount = 3, qrTimerArmed = False, qrGenerated = 3, connectPromise = Pending\<rparr>"
  by (simp add: three_challenges_def initial_session_def challenge_def handler_defs QR_MAX_RETRY_def)

lemma step_armed:
  "(qrTimerArmed s \<longrightarrow> qrTimeout s) \<Longrightarrow> (qrTimerArmed (step e s) \<longrightarrow> qrTimeout (step e s))"
  by (cases e) (auto simp: handler_defs Let_def split: connection.splits option.splits)

lemma run_armed:
  "(qrTimerArmed s \<longrightarrow> qrTimeout s) \<Longrightarrow> (qrTimerArmed (run es s) \<longrightarrow> qrTimeout (run es s))"
proof (induction es arbitrary: s)
  case Nil
  then show ?case by simp
next
  case (Cons e es)
  from Cons.prems have "qrTimerArmed (step e s) \<longrightarrow> qrTimeout (step e s)"
    by (rule step_armed)
  then show ?case
    using Cons.IH by simp
qed

lemma open_update_effects:
  "connection u = Open \<Longrightarrow> (qrTimerArmed s \<longrightarrow> qrTimeout s) \<Longrightarrow>
     isConnected (step (ConnectionUpdate u) s) \<and> qrRetryCount (step (ConnectionUpdate u) s) = 0
     \<and> \<not> qrTimeout (step (ConnectionUpdate u) s) \<and> \<not> qrTimerArmed (step (ConnectionUpdate u) s)"
  by (auto simp: on_connection_update_def on_open_def on_qr_def clear_qrTimeout_def resolve_def Let_def)

lemma global_timer_handler:
  "global_timeout_ms = 190000
   \<and> (\<not> isConnected s \<and> QR_MAX_RETRY \<le> qrRetryCount s \<and> connectPromise s = Pending \<longrightarrow>
        step GlobalTimerFires s = s\<lparr>connectPromise := Rejected ''Maximum QR code attempts reached''\<rparr>)
   \<and> (isConnected s \<or> qrRetryCount s < QR_MAX_RETRY \<or> connectPromise s \<noteq> Pending \<longrightarrow>
        step GlobalTimerFires s = s)"
  by (auto simp: global_timeout_ms_def QR_MAX_RETRY_def QR_TIMEOUT_SECONDS_def
      on_global_timer_def reject_def)

text \<open>
  Claim C5 asks that a call which is not connected when the global timer fires, after
  3 * 60 s + 10 s, fails. The timer is introduced as "a global timeout for the entire
  connection process" and its handler logs that the connection timed out, but it rejects
  only with the challenge counter at \<open>QR_MAX_RETRY\<close> (\<open>global_timer_handler\<close>). After two
  challenges that timed out, the timer finds the session not connected and the counter
  at 2: nothing is rejected and the promise of the caller stays pending.
\<close>

theorem global_timeout_leaves_connect_pending:
  "run two_challenges_then_timeout initial_session =
     \<lparr>sock = True, isConnected = False, qrDisplayed = False, qrTimeout = True,
      qrRetryCount = 2, qrTimerArmed = False, qrGenerated = 2, connectPromise = Pending\<rparr>"
  by (simp add: two_challenges_then_timeout_def initial_session_def challenge_def handler_defs
      QR_MAX_RETRY_def)

text \<open>
  Claim C6, amended: the challenge counter never exceeds \<open>QR_MAX_RETRY = 3\<close>, and within
  one connection cycle (a run of events none of which resets the counter) at most
  \<open>3 - qrRetryCount\<close> challenges are displayed, so never more than 3. A challenge that
  arrives with the counter at 3 is ignored: nothing is displayed and nothing fails at that
  moment. The failure "Maximum QR code attempts reached" comes from the global timer, when
  it fires with the counter at 3 on a session that is not connected and whose promise is
  pending.
\<close>

theorem challenge_issuance_bounded:
  "(qrRetryCount s \<le> QR_MAX_RETRY \<longrightarrow> qrRetryCount (run es s) \<le> QR_MAX_RETRY)
   \<and> (qrRetryCount s \<le> QR_MAX_RETRY \<and> (\<forall>e\<in>set es. \<not> ends_cycle e) \<longrightarrow>
        qrGenerated (run es s) + qrRetryCount s \<le> qrGenerated s + QR_MAX_RETRY)
   \<and> (qrRetryCount s = QR_MAX_RETRY \<longrightarrow> step (ConnectionUpdate challenge) s = s)
   \<and> (\<not> isConnected s \<and> qrRetryCount s = QR_MAX_RETRY \<and> connectPromise s = Pending \<longrightarrow>
        connectPromise (step GlobalTimerFires s) = Rejected ''Maximum QR code attempts reached'')"
proof (intro conjI impI)
  assume "qrRetryCount s \<le> QR_MAX_RETRY"
  then show "qrRetryCount (run es s) \<le> QR_MAX_RETRY"
    by (rule run_counter_le)
next
  assume cycle: "qrRetryCount s \<le> QR_MAX_RETRY \<and> (\<forall>e\<in>set es. \<not> ends_cycle e)"
  then have "qrRetryCount (run es s) \<le> QR_MAX_RETRY"
    by (simp add: run_counter_le)
  moreover have "qrGenerated (run es s) + qrRetryCount s = qrGenerated s + qrRetryCount (run es s)"
    using cycle by (simp add: run_generated)
  ultimately show "qrGenerated (run es s) + qrRetryCount s \<le> qrGenerated s + QR_MAX_RETRY"
    by simp
next
  assume "qrRetryCount s = QR_MAX_RETRY"
  then show "step (ConnectionUpdate challenge) s = s"
    by (simp add: on_connection_update_def on_qr_def challenge_def)
next
  assume "\<not> isConnected s \<and> qrRetryCount s = QR_MAX_RETRY \<and> connectPromise s = Pending"
  then show "connectPromise (step GlobalTimerFires s) = Rejected ''Maximum QR code attempts reached''"
    by (simp add: on_global_timer_def reject_def)
qed

theorem challenge_issuance_bounded_witness:
  "qrRetryCount (run (three_challenges @ [ConnectionUpdate challenge]) initial_session) \<le> 3
   \<and> qrGenerated (run (three_challenges @ [ConnectionUpdate challenge]) initial_session) \<le> 3
   \<and> step (ConnectionUpdate challenge) (run three_challenges initial_session)
       = run three_challenges initial_session
   \<and> connectPromise (step GlobalTimerFires (run three_challenges initial_session))
       = Rejected ''Maximum QR code attempts reached''"
proof -
  have cycle: "\<forall>e\<in>set (three_challenges @ [ConnectionUpdate challenge]). \<not> ends_cycle e"
    by (simp add: three_challenges_def challenge_def)
  have start: "qrRetryCount initial_session = 0" "qrGenerated initial_session = 0"
    by (simp_all add: initial_session_def)
  show ?thesis
    using challenge_issuance_bounded
        [of initial_session "three_challenges @ [ConnectionUpdate challenge]"]
      challenge_issuance_bounded [of "run three_challenges initial_session" "[]"]
      cycle start
    by (simp add: three_challenges_state QR_MAX_RETRY_def)
qed

text \<open>
  Claim C6 as stated makes the fourth would-be challenge a fatal failure of the call.
  After three displayed challenges the fourth one is dropped and the promise is still
  pending; if the platform then reports the connection open, the call succeeds.
\<close>

theorem fourth_challenge_counterexample:
  "qrGenerated (run three_challenges initial_session) = 3
   \<and> connectPromise (run (three_challenges @ [ConnectionUpdate challenge]) initial_session)
       = Pending
   \<and> connectPromise
       (run (three_challenges @ [ConnectionUpdate challenge, ConnectionUpdate open_update])
          initial_session) = Resolved"
  by (simp add: run_append three_challenges_state challenge_def open_update_def handler_defs
      QR_MAX_RETRY_def)

text \<open>
  Claim C7 asks for three effects on either way into the connected state: the challenge
  timer cleared, the counter back at 0, the flag set. The handler of an open connection
  has all three (\<open>open_update_effects\<close>). The handler of \<open>messages.upsert\<close>, which the code
  introduces as another indicator of a successful connection, only sets the flag and
  resolves the promise: after a displayed challenge and a message event, the timer is
  still armed and the counter is still 1.
\<close>

theorem message_event_keeps_timer_and_counter:
  "run [StartWhatsApp, ConnectionUpdate challenge, MessagesUpsert] initial_session =
     \<lparr>sock = True, isConnected = True, qrDisplayed = True, qrTimeout = True,
      qrRetryCount = 1, qrTimerArmed = True, qrGenerated = 1, connectPromise = Resolved\<rparr>"
  by (simp add: initial_session_def challenge_def handler_defs QR_MAX_RETRY_def)

section \<open>Properties of the Notifier\<close>

lemma ensure_loop_never_live:
  assumes "\<not> is_live v"
    and "\<forall>i. retries \<le> i \<and> i < maxRetries \<longrightarrow>
           (\<exists>c u. attempt i = ConnectResolves c u \<and> \<not> (c \<and> u))"
  shows "ensure_loop attempt maxRetries retries v = Returns False"
  using assms
proof (induction attempt maxRetries retries v rule: ensure_loop.induct)
  case (1 attempt maxRetries retries v)
  show ?case
  proof (cases "retries < maxRetries")
    case False
    with "1.prems" show ?thesis
      by (simp add: ensure_loop.simps)
  next
    case True
    note more = True
    have later: "\<forall>i. retries + 1 \<le> i \<and> i < maxRetries \<longrightarrow>
                   (\<exists>c u. attempt i = ConnectResolves c u \<and> \<not> (c \<and> u))"
      using "1.prems"(2) by simp
    show ?thesis
    proof (cases "\<not> v_sock v \<or> \<not> v_isConnected v")
      case True
      from "1.prems"(2) more obtain c u
        where cu: "attempt retries = ConnectResolves c u" "\<not> (c \<and> u)"
        by blast
      have down: "\<not> is_live \<lparr>v_isConnected = c, v_sock = True, v_user = u\<rparr>"
        using cu(2) by (simp add: is_live_def)
      have "ensure_loop attempt maxRetries (retries + 1)
              \<lparr>v_isConnected = c, v_sock = True, v_user = u\<rparr> = Returns False"
        using "1.IH"(1) [OF more "1.prems"(1) True cu(1) down later] .
      then show ?thesis
        using more "1.prems"(1) True cu(1) by (subst ensure_loop.simps) simp
    next
      case False
      have "ensure_loop attempt maxRetries (retries + 1) v = Returns False"
        using "1.IH"(2) [OF more "1.prems"(1) False "1.prems"(1) later] .
      then show ?thesis
        using more "1.prems"(1) False by (subst ensure_loop.simps) simp
    qed
  qed
qed

lemma ensure_live: "is_live v \<Longrightarrow> ensureWhatsAppConnection attempt v = Returns True"
  by (simp add: ensureWhatsAppConnection_def ensure_loop.simps)

text \<open>
  Claim C9: \<open>sendWhatsAppMessage\<close> never raises to its caller. When the session is not live
  and each of the three connection attempts, with its wait of 10 seconds, leaves it not
  live, the call returns \<open>null\<close> and \<open>sock.sendMessage\<close> is not called; the same holds
  whenever \<open>ensureWhatsAppConnection\<close> returns a false value. Every other failure, a
  rejected connection attempt or an exception of the send itself, ends in \<open>null\<close> as well.
\<close>

theorem send_never_raises:
  "completion (sendWhatsAppMessage env message v) \<noteq> Throws e
   \<and> (\<not> is_live v \<and> (\<forall>i<3. \<exists>c u. connects env i = ConnectResolves c u \<and> \<not> (c \<and> u)) \<longrightarrow>
        sendWhatsAppMessage env message v = \<lparr>completion = Returns None, sent = []\<rparr>)
   \<and> (ensureWhatsAppConnection (connects env) v = Returns False \<longrightarrow>
        sendWhatsAppMessage env message v = \<lparr>completion = Returns None, sent = []\<rparr>)
   \<and> (ensureWhatsAppConnection (connects env) v = Throws e \<longrightarrow>
        sendWhatsAppMessage env message v = \<lparr>completion = Returns None, sent = []\<rparr>)
   \<and> (completion (send_try env message v) = Throws e \<longrightarrow>
        completion (sendWhatsAppMessage env message v) = Returns None)"
proof (intro conjI impI)
  show "completion (sendWhatsAppMessage env message v) \<noteq> Throws e"
    by (simp add: sendWhatsAppMessage_def Let_def split: completion.splits)
next
  assume "\<not> is_live v \<and> (\<forall>i<3. \<exists>c u. connects env i = ConnectResolves c u \<and> \<not> (c \<and> u))"
  then have "ensure_loop (connects env) 3 0 v = Returns False"
    by (intro ensure_loop_never_live) auto
  then show "sendWhatsAppMessage env message v = \<lparr>completion = Returns None, sent = []\<rparr>"
    by (simp add: sendWhatsAppMessage_def send_try_def ensureWhatsAppConnection_def)
next
  assume "ensureWhatsAppConnection (connects env) v = Returns False"
  then show "sendWhatsAppMessage env message v = \<lparr>completion = Returns None, sent = []\<rparr>"
    by (simp add: sendWhatsAppMessage_def send_try_def)
next
  assume "ensureWhatsAppConnection (connects env) v = Throws e"
  then show "sendWhatsAppMessage env message v = \<lparr>completion = Returns None, sent = []\<rparr>"
    by (simp add: sendWhatsAppMessage_def send_try_def)
next
  assume "completion (send_try env message v) = Throws e"
  then show "completion (sendWhatsAppMessage env message v) = Returns None"
    by (simp add: sendWhatsAppMessage_def Let_def)
qed

theorem send_never_raises_witness:
  "sendWhatsAppMessage dropped_each_time ''Whois Bot Error: Error'' down_view
     = \<lparr>completion = Returns None, sent = []\<rparr>
   \<and> sendWhatsAppMessage connect_rejected ''Whois Bot Error: Error'' down_view
     = \<lparr>completion = Returns None, sent = []\<rparr>
   \<and> completion (send_try send_fails ''Whois Bot Error: Error'' live_view) = Throws ''Connection Closed''
   \<and> sendWhatsAppMessage send_fails ''Whois Bot Error: Error'' live_view
     = \<lparr>completion = Returns None,
        sent = [(''905000000000@s.whatsapp.net'', ''Whois Bot Error: Error'')]\<rparr>"
proof -
  have down: "\<not> is_live down_view"
    by (simp add: is_live_def down_view_def)
  have dropped: "\<forall>i<3. \<exists>c u. connects dropped_each_time i = ConnectResolves c u \<and> \<not> (c \<and> u)"
    by (auto simp: dropped_each_time_def)
  have rejected: "ensureWhatsAppConnection (connects connect_rejected) down_view
                    = Throws ''Connection closed with status code: 401''"
    by (simp add: ensureWhatsAppConnection_def ensure_loop.simps connect_rejected_def
        down_view_def is_live_def)
  have live: "ensureWhatsAppConnection (connects send_fails) live_view = Returns True"
    by (simp add: ensure_live is_live_def live_view_def)
  have jid: "\<not> str_includes ''905000000000'' ''@s.whatsapp.net''"
    by code_simp
  have thrown: "send_try send_fails ''Whois Bot Error: Error'' live_view
      = \<lparr>completion = Throws ''Connection Closed'',
         sent = [(''905000000000@s.whatsapp.net'', ''Whois Bot Error: Error'')]\<rparr>"
    using live jid by (simp add: send_try_def send_fails_def)
  have caught: "sendWhatsAppMessage send_fails ''Whois Bot Error: Error'' live_view
      = \<lparr>completion = Returns None,
         sent = [(''905000000000@s.whatsapp.net'', ''Whois Bot Error: Error'')]\<rparr>"
    using thrown by (simp add: sendWhatsAppMessage_def)
  show ?thesis
    using send_never_raises
        [of dropped_each_time "''Whois Bot Error: Error''" down_view "''Connection Closed''"]
      send_never_raises
        [of connect_rejected "''Whois Bot Error: Error''" down_view
            "''Connection closed with status code: 401''"]
      send_never_raises
        [of send_fails "''Whois Bot Error: Error''" live_view "''Connection Closed''"]
      down dropped rejected thrown caught
    by simp
qed




section \<open>Properties of the arithmetic on doubles\<close>

lemma round_half_even_nearest:
  assumes "0 < d" and "0 \<le> n"
  shows "2 * n \<le> 2 * (d * round_half_even n d) + d"
    and "2 * (d * round_half_even n d) \<le> 2 * n + d"
proof -
  define q r where "q = n div d" and "r = n mod d"
  have n: "n = d * q + r"
    by (simp add: q_def r_def)
  have r: "0 \<le> r" "r < d"
    using assms by (simp_all add: r_def)
  have m: "round_half_even n d = q \<and> 2 * r \<le> d \<or> round_half_even n d = q + 1 \<and> d \<le> 2 * r"
    by (auto simp: round_half_even_def Let_def q_def r_def)
  show "2 * n \<le> 2 * (d * round_half_even n d) + d"
    using m r n by (auto simp: algebra_simps)
  show "2 * (d * round_half_even n d) \<le> 2 * n + d"
    using m r n by (auto simp: algebra_simps)
qed

lemma round_half_even_one: "round_half_even n 1 = n"
  by (simp add: round_half_even_def)

lemma shift_up_reaches:
  "0 < n \<Longrightarrow> 2 ^ 52 * d \<le> n * 2 ^ shift_up n d s"
proof (induction n d s rule: shift_up.induct)
  case (1 n d s)
  then show ?case
    by (subst shift_up.simps) auto
qed

lemma shift_down_zero: "n < 2 ^ 53 * d \<Longrightarrow> shift_down n d 0 = 0"
  by (simp add: shift_down.simps)

lemma shift_down_least:
  "0 < d \<Longrightarrow> 2 ^ 53 * d * 2 ^ k \<le> 2 * n \<Longrightarrow> 2 ^ 53 * d * 2 ^ shift_down n d k \<le> 2 * n"
proof (induction n d k rule: shift_down.induct)
  case (1 n d k)
  show ?case
  proof (cases "n < 2 ^ 53 * d * 2 ^ k")
    case True
    with 1 show ?thesis
      by (subst shift_down.simps) simp
  next
    case False
    then have "2 ^ 53 * d * 2 ^ (k + 1) \<le> 2 * n"
      by simp
    with 1 False have "2 ^ 53 * d * 2 ^ shift_down n d (k + 1) \<le> 2 * n"
      by simp
    with 1 False show ?thesis
      by (subst shift_down.simps) simp
  qed
qed

lemma double_of_int_exact: "\<bar>x\<bar> < 2 ^ 53 \<Longrightarrow> double_of_int x = x"
  by (simp add: double_of_int_def shift_down_zero round_half_even_one mult_sgn_abs)


lemma floor_double_div_exact:
  assumes d: "0 < d" and y: "0 \<le> y" "y < 2 ^ 53"
  shows "floor_double_div y d = y div d"
proof (cases "y = 0")
  case True
  then show ?thesis
    by (simp add: floor_double_div_def shift_down.simps shift_up.simps round_half_even_def d)
next
  case False
  with y have pos: "0 < y" by simp
  define P :: int where "P = 2 ^ shift_up y d 0"
  define m where "m = round_half_even (y * P) d"
  define q r where "q = y div d" and "r = y mod d"
  define U V W Z where "U = y * P" and "V = d * m" and "W = d * q * P" and "Z = r * P"
  have P: "0 < P" by (simp add: P_def)
  have "y < 2 ^ 53 * d"
  proof -
    have "2 ^ 53 * 1 \<le> (2 ^ 53 :: int) * d"
      using d by (intro mult_left_mono) simp_all
    with y show ?thesis by simp
  qed
  then have k: "shift_down \<bar>y\<bar> d 0 = 0"
    using y by (simp add: shift_down_zero)
  have val: "floor_double_div y d = m div P"
    using pos k by (simp add: floor_double_div_def Let_def m_def P_def)
  have r: "0 \<le> r" "r < d"
    using d by (simp_all add: r_def)
  have ydq: "y = d * q + r"
    by (simp add: q_def r_def)
  have UWZ: "U = W + Z"
    unfolding U_def W_def Z_def by (subst ydq) (simp add: algebra_simps)
  have Z: "0 \<le> Z"
    using r P by (simp add: Z_def)
  have "(r + 1) * P \<le> d * P"
    using r P by (intro mult_right_mono) simp_all
  then have ZP: "Z + P \<le> d * P"
    by (simp add: Z_def algebra_simps)
  have "0 \<le> y * P"
    using pos P by simp
  then have near: "2 * U \<le> 2 * V + d" "2 * V \<le> 2 * U + d"
    using round_half_even_nearest [OF d, of "y * P"] by (simp_all add: U_def V_def m_def)
  have "2 ^ 52 * d \<le> U"
    using shift_up_reaches [OF pos, of d 0] by (simp add: U_def P_def)
  moreover have "U < 2 ^ 53 * P"
    unfolding U_def using y P by (intro mult_strict_right_mono) simp_all
  ultimately have dP: "d < 2 * P"
    by simp
  have lower: "q * P \<le> m"
  proof (rule ccontr)
    assume "\<not> q * P \<le> m"
    then have "m + 1 \<le> q * P" by simp
    then have "d * (m + 1) \<le> d * (q * P)"
      using d by (intro mult_left_mono) simp_all
    then have "V + d \<le> W"
      by (simp add: V_def W_def algebra_simps)
    with near UWZ Z d show False by simp
  qed
  have upper: "m < (q + 1) * P"
  proof (rule ccontr)
    assume "\<not> m < (q + 1) * P"
    then have "(q + 1) * P \<le> m" by simp
    then have "d * ((q + 1) * P) \<le> d * m"
      using d by (intro mult_left_mono) simp_all
    then have "W + d * P \<le> V"
      by (simp add: V_def W_def algebra_simps)
    with near UWZ ZP dP show False by simp
  qed
  have "m div P = q"
  proof (rule int_div_pos_eq)
    show "m = P * q + (m - q * P)" by (simp add: algebra_simps)
    show "0 \<le> m - q * P" using lower by simp
    show "m - q * P < P" using upper by (simp add: algebra_simps)
  qed
  with val show ?thesis
    by (simp add: q_def)
qed

lemma double_of_int_large:
  assumes "2 ^ 53 \<le> x"
  shows "2 ^ 52 \<le> double_of_int x"
proof -
  define Q :: int where "Q = 2 ^ shift_down x 1 0"
  define m where "m = round_half_even x Q"
  have Q: "0 < Q" by (simp add: Q_def)
  have x: "0 < x" using assms by simp
  then have val: "double_of_int x = m * Q"
    by (simp add: double_of_int_def Let_def Q_def m_def)
  have "2 ^ 53 * 1 * 2 ^ shift_down x 1 0 \<le> 2 * x"
    using assms by (intro shift_down_least) simp_all
  then have least: "2 ^ 53 * Q \<le> 2 * x"
    by (simp add: Q_def)
  have "2 * x \<le> 2 * (Q * m) + Q"
    using round_half_even_nearest(1) [OF Q, of x] x by (simp add: m_def)
  with least Q assms have "2 ^ 53 \<le> 2 * (Q * m)"
    by simp
  with val show ?thesis
    by (simp add: algebra_simps)
qed

lemma floor_double_div_large:
  assumes d: "0 < d" and y: "31 * d \<le> y"
  shows "31 \<le> floor_double_div y d"
proof -
  have pos: "0 < y" using d y by simp
  show ?thesis
  proof (cases "0 < shift_down \<bar>y\<bar> d 0")
    case True
    define Q :: int where "Q = 2 ^ shift_down y d 0"
    define m where "m = round_half_even y (d * Q)"
    have Q: "0 < Q" by (simp add: Q_def)
    have dQ: "0 < d * Q" using d Q by simp
    have val: "floor_double_div y d = m * Q"
      using True pos by (simp add: floor_double_div_def Let_def Q_def m_def)
    have big: "2 ^ 53 * d \<le> y"
    proof (rule ccontr)
      assume "\<not> 2 ^ 53 * d \<le> y"
      then have "shift_down y d 0 = 0" by (simp add: shift_down_zero)
      with True pos show False by simp
    qed
    then have "2 ^ 53 * d * 2 ^ 0 \<le> 2 * y"
      using pos by simp
    then have "2 ^ 53 * d * 2 ^ shift_down y d 0 \<le> 2 * y"
      by (rule shift_down_least [OF d])
    then have least: "2 ^ 53 * (d * Q) \<le> 2 * y"
      by (simp add: Q_def algebra_simps)
    have "2 * y \<le> 2 * (d * Q * m) + d * Q"
      using round_half_even_nearest(1) [OF dQ, of y] pos by (simp add: m_def)
    with least dQ big have "d * 2 ^ 53 \<le> d * (2 * (m * Q))"
      by (simp add: algebra_simps)
    then have "2 ^ 53 \<le> 2 * (m * Q)"
      using d by (simp only: mult_le_cancel_left_pos)
    moreover define v where "v = m * Q"
    ultimately have "2 ^ 53 \<le> 2 * v" by simp
    then have "31 \<le> v" by simp
    with val show ?thesis by (simp add: v_def)
  next
    case False
    define P :: int where "P = 2 ^ shift_up y d 0"
    define m where "m = round_half_even (y * P) d"
    have P: "0 < P" by (simp add: P_def)
    have val: "floor_double_div y d = m div P"
      using False pos by (simp add: floor_double_div_def Let_def P_def m_def)
    have "(31 * d) * P \<le> y * P"
      using y P by (intro mult_right_mono) simp_all
    moreover have "2 * (y * P) \<le> 2 * (d * m) + d"
      using round_half_even_nearest(1) [OF d, of "y * P"] pos P by (simp add: m_def)
    ultimately have "d * (62 * P) \<le> d * (2 * m + 1)"
      by (simp add: algebra_simps)
    then have "62 * P \<le> 2 * m + 1"
      using d by (simp only: mult_le_cancel_left_pos)
    then have "31 * P \<le> m" by simp
    then have "(31 * P) div P \<le> m div P"
      using P by (intro zdiv_mono1) simp_all
    with P val show ?thesis by simp
  qed
qed

lemma days_exact:
  "0 \<le> x \<Longrightarrow> x < 2 ^ 53 \<Longrightarrow> floor_double_div (double_of_int x) 86400000 = x div 86400000"
  by (simp add: double_of_int_exact floor_double_div_exact)

lemma days_large:
  assumes "31 * 86400000 \<le> x"
  shows "31 \<le> floor_double_div (double_of_int x) 86400000"
proof (cases "x < 2 ^ 53")
  case True
  with assms have "double_of_int x = x"
    by (intro double_of_int_exact) simp
  with assms show ?thesis
    by (simp add: floor_double_div_large)
next
  case False
  then have "2 ^ 52 \<le> double_of_int x"
    by (intro double_of_int_large) simp
  then have "31 * 86400000 \<le> double_of_int x"
    by simp
  then show ?thesis
    by (intro floor_double_div_large) simp_all
qed

lemma day_count_beyond_exact_range:
  "floor_double_div (double_of_int 17279999913599999) 86400000 = 199999999
   \<and> 17279999913599999 div 86400000 = (199999998::int)"
  by code_simp

section \<open>Properties of the Scheduler\<close>

lemma starts_with_append: "starts_with p (p @ s)"
  by (induction p) simp_all

lemma str_includes_at: "starts_with sub s \<Longrightarrow> str_includes (pre @ s) sub"
proof (induction pre)
  case Nil
  then show ?case by (cases s; cases sub) simp_all
next
  case (Cons a pre)
  then show ?case by simp
qed

lemma str_includes_middle: "str_includes (pre @ sub @ post) sub"
  by (rule str_includes_at) (rule starts_with_append)

text \<open>
  Claim C3: with \<open>d = floor((expiry - now) / 1 day)\<close>, an expiry strictly before now gives
  the "expired" alert on both runs; otherwise \<open>0 \<le> d \<le> 30\<close> gives the "warning" alert on
  both runs, and its text contains the day count \<open>d\<close>; otherwise the startup run sends
  the "info" message and the daily run sends nothing. The program computes the day count
  in doubles: up to a distance of \<open>2 ^ 53\<close> milliseconds it is exactly \<open>d\<close>, and beyond
  that it is still above 30. An invalid date is neither before now nor has it a day
  count, so it falls into the last tier.
\<close>

theorem alert_classification:
  assumes "d = (t - now) div 86400000"
  shows
    "(t < now \<longrightarrow>
        initial_check D (Inr (DateAt t)) now
          = [(Some Siren, ''ATTENTION! '' @ D @ '' appears to have expired! Check immediately!'')]
      \<and> daily_check D (Inr (DateAt t)) now
          = [(Some Siren, ''ATTENTION! '' @ D @ '' appears to have expired! Check immediately!'')])
     \<and> (\<not> t < now \<and> 0 \<le> d \<and> d \<le> 30 \<longrightarrow>
        initial_check D (Inr (DateAt t)) now
          = [(Some WarningSign,
              ''Warning: Domain '' @ D @ '' will expire in '' @ show_int d @ '' days!'')]
      \<and> daily_check D (Inr (DateAt t)) now
          = [(Some WarningSign,
              ''Warning: Domain '' @ D @ '' will expire in '' @ show_int d @ '' days!'')]
      \<and> str_includes (''Warning: Domain '' @ D @ '' will expire in '' @ show_int d @ '' days!'')
           (show_int d))
     \<and> (\<not> t < now \<and> \<not> (0 \<le> d \<and> d \<le> 30) \<longrightarrow>
        initial_check D (Inr (DateAt t)) now
          = [(Some InformationSign,
              ''Domain '' @ D @ '' will expire in ''
                @ show_number (daysUntilExpiry (DateAt t) now) @ '' days.'')]
      \<and> daily_check D (Inr (DateAt t)) now = [])
     \<and> (\<not> t < now \<and> t - now < 2 ^ 53 \<longrightarrow> daysUntilExpiry (DateAt t) now = Some d)
     \<and> initial_check D (Inr InvalidDate) now
          = [(Some InformationSign, ''Domain '' @ D @ '' will expire in NaN days.'')]
     \<and> daily_check D (Inr InvalidDate) now = []"
proof (intro conjI impI)
  assume "t < now"
  then show "initial_check D (Inr (DateAt t)) now
      = [(Some Siren, ''ATTENTION! '' @ D @ '' appears to have expired! Check immediately!'')]"
    and "daily_check D (Inr (DateAt t)) now
      = [(Some Siren, ''ATTENTION! '' @ D @ '' appears to have expired! Check immediately!'')]"
    by (simp_all add: initial_check_def daily_check_def before_def expired_message_def)
next
  assume warn: "\<not> t < now \<and> 0 \<le> d \<and> d \<le> 30"
  then have "t - now < 31 * 86400000"
    using assms by arith
  then have "t - now < 2 ^ 53"
    by simp
  with warn have "floor_double_div (double_of_int (t - now)) 86400000 = d"
    using assms by (simp add: days_exact)
  then have days: "daysUntilExpiry (DateAt t) now = Some d"
    by (simp add: daysUntilExpiry_def)
  with warn show "initial_check D (Inr (DateAt t)) now
      = [(Some WarningSign,
          ''Warning: Domain '' @ D @ '' will expire in '' @ show_int d @ '' days!'')]"
    and "daily_check D (Inr (DateAt t)) now
      = [(Some WarningSign,
          ''Warning: Domain '' @ D @ '' will expire in '' @ show_int d @ '' days!'')]"
    by (simp_all add: initial_check_def daily_check_def before_def at_most_def
        warning_message_def show_number_def)
  show "str_includes (''Warning: Domain '' @ D @ '' will expire in '' @ show_int d @ '' days!'')
      (show_int d)"
    using str_includes_middle
      [of "''Warning: Domain '' @ D @ '' will expire in ''" "show_int d" "'' days!''"]
    by simp
next
  assume info: "\<not> t < now \<and> \<not> (0 \<le> d \<and> d \<le> 30)"
  then have "0 \<le> d"
    using assms by (simp add: pos_imp_zdiv_nonneg_iff)
  with info have "31 \<le> d"
    by simp
  then have "31 * 86400000 \<le> t - now"
    using assms by arith
  then have "31 \<le> floor_double_div (double_of_int (t - now)) 86400000"
    by (rule days_large)
  then have late: "\<not> at_most (daysUntilExpiry (DateAt t) now) 30"
    by (simp add: daysUntilExpiry_def at_most_def)
  with info show "initial_check D (Inr (DateAt t)) now
      = [(Some InformationSign,
          ''Domain '' @ D @ '' will expire in ''
            @ show_number (daysUntilExpiry (DateAt t) now) @ '' days.'')]"
    and "daily_check D (Inr (DateAt t)) now = []"
    by (simp_all add: initial_check_def daily_check_def before_def Let_def info_message_def)
next
  assume "\<not> t < now \<and> t - now < 2 ^ 53"
  then show "daysUntilExpiry (DateAt t) now = Some d"
    using assms by (simp add: daysUntilExpiry_def days_exact)
next
  show "initial_check D (Inr InvalidDate) now
      = [(Some InformationSign, ''Domain '' @ D @ '' will expire in NaN days.'')]"
    and "daily_check D (Inr InvalidDate) now = []"
    by (simp_all add: initial_check_def daily_check_def before_def at_most_def
        daysUntilExpiry_def info_message_def show_number_def)
qed

theorem alert_classification_witness:
  "initial_check ''example.com'' (Inr (DateAt 1704067200000)) 1706745600000
       = [(Some Siren, ''ATTENTION! example.com appears to have expired! Check immediately!'')]
   \<and> daily_check ''example.com'' (Inr (DateAt 1704067200000)) 1706745600000
       = [(Some Siren, ''ATTENTION! example.com appears to have expired! Check immediately!'')]
   \<and> initial_check ''example.com'' (Inr (DateAt 1707627600000)) 1706745600000
       = [(Some WarningSign, ''Warning: Domain example.com will expire in 10 days!'')]
   \<and> daily_check ''example.com'' (Inr (DateAt 1707627600000)) 1706745600000
       = [(Some WarningSign, ''Warning: Domain example.com will expire in 10 days!'')]
   \<and> str_includes ''Warning: Domain example.com will expire in 10 days!'' ''10''
   \<and> initial_check ''example.com'' (Inr (DateAt 1714521600000)) 1706745600000
       = [(Some InformationSign, ''Domain example.com will expire in 90 days.'')]
   \<and> daily_check ''example.com'' (Inr (DateAt 1714521600000)) 1706745600000 = []"
proof -
  have days: "(-31::int) = (1704067200000 - 1706745600000) div 86400000"
    "(10::int) = (1707627600000 - 1706745600000) div 86400000"
    "(90::int) = (1714521600000 - 1706745600000) div 86400000"
    by simp_all
  have texts: "show_int 10 = ''10''" "show_int 90 = ''90''"
    by (simp_all add: show_int_def show_nat.simps)
  show ?thesis
    using alert_classification [OF days(1), of "''example.com''"]
      alert_classification [OF days(2), of "''example.com''"]
      alert_classification [OF days(3), of "''example.com''"]
      texts
    by (simp add: show_number_def)
qed

text \<open>
  Claim C4, amended: when the lookup fails, both runs hand one error report to
  \<open>sendWhatsAppMessage\<close>. The startup run reports the message of the error (or its name
  when the message is empty), the daily run reports the text of the error: its name and
  its message.
\<close>

theorem lookup_failure_is_reported_on_both_runs:
  "initial_check D (Inl error) now
     = [(None, ''Whois Bot Error: '' @
          (if error_message error \<noteq> [] then error_message error else error_name error))]
   \<and> daily_check D (Inl error) now
     = [(None, ''Whois Bot Error: '' @
          (if error_name error = [] then error_message error
           else if error_message error = [] then error_name error
           else error_name error @ '': '' @ error_message error))]"
  by (simp add: initial_check_def daily_check_def error_toString_def)

theorem lookup_failure_is_reported_on_both_runs_witness:
  "initial_check ''example.com'' (Inl \<lparr>error_name = ''TypeError'', error_message = ''bad''\<rparr>)
       1706745600000
     = [(None, ''Whois Bot Error: bad'')]
   \<and> daily_check ''example.com'' (Inl \<lparr>error_name = ''TypeError'', error_message = ''bad''\<rparr>)
       1706745600000
     = [(None, ''Whois Bot Error: TypeError: bad'')]
   \<and> initial_check ''example.com'' (Inl (new_Error [])) 1706745600000
     = [(None, ''Whois Bot Error: Error'')]
   \<and> daily_check ''example.com'' (Inl connection_refused) 1706745600000
     = [(None, ''Whois Bot Error: Error: connect ECONNREFUSED'')]"
  using lookup_failure_is_reported_on_both_runs
      [of "''example.com''" "\<lparr>error_name = ''TypeError'', error_message = ''bad''\<rparr>" 1706745600000]
    lookup_failure_is_reported_on_both_runs [of "''example.com''" "new_Error []" 1706745600000]
    lookup_failure_is_reported_on_both_runs [of "''example.com''" connection_refused 1706745600000]
  by (simp add: new_Error_def connection_refused_def)

text \<open>
  Claim C4 as stated has the daily run only log a failed lookup. On a rate-limited primary
  lookup whose fallback times out, the daily run sends the error report.
\<close>

theorem daily_failure_counterexample:
  "daily_run (Some ''example.com'')
     (outcome (checkDomainExpiration sample_Date (WhoisData ''Rate limit exceeded'')
        (RdapErr axios_timeout))) 1706745600000
   = [(None, ''Whois Bot Error: Error: Domain expiration date couldn't be retrieved: timeout of 10000ms exceeded'')]"
  by (simp add: daily_run_def daily_check_def error_toString_def checkDomainExpiration_def
      checkWithWhois_def checkWithRdap_def rdap_extract_def new_Error_def axios_timeout_def)

end
